theory Spec2Isabelle
  imports Main
begin

section \<open>Data model of the contract finder agent (src/app.py)\<close>

text \<open>
  A Python \<open>str\<close> is modelled as an Isabelle \<open>string\<close>, one \<open>char\<close> per code point;
  the model therefore covers the strings whose code points lie in the Latin-1 range.

  A field annotated \<open>Optional[str]\<close> holds either \<open>None\<close> or a string.
\<close>

datatype pyval = PyNone | PyStr string

text \<open>
  The messages of the conversation: \<open>HumanMessage(content=...)\<close> is authored by the user,
  \<open>AIMessage(content=...)\<close> by the assistant.
\<close>

datatype message = HumanMessage string | AIMessage string

text \<open>
  \<open>ContractState\<close> is a \<open>TypedDict\<close>, at run time a plain dictionary. Each field of the
  record is the entry of one key: \<open>None\<close> when the key is absent from the dictionary,
  \<open>Some v\<close> when it is present with value \<open>v\<close> (and \<open>Some PyNone\<close> when it is present
  with the value \<open>None\<close>, as in the initial state of \<open>run_contract_finder\<close>).
  The dictionaries returned by the graph nodes, such as \<open>{"messages": [...]}\<close>, are
  dictionaries over the same keys and have the same type.
\<close>

record ContractState =
  messages :: "message list option"
  industry :: "pyval option"
  contract_type :: "pyval option"
  location :: "pyval option"
  budget_range :: "pyval option"

text \<open>\<open>d.get(k)\<close>: the value of the key, \<open>None\<close> when the key is absent.\<close>

definition get :: "pyval option \<Rightarrow> pyval" where
  "get e = (case e of None \<Rightarrow> PyNone | Some v \<Rightarrow> v)"

text \<open>\<open>d.get(k, default)\<close>: the default replaces an absent key only.\<close>

definition get_default :: "pyval option \<Rightarrow> string \<Rightarrow> pyval" where
  "get_default e d = (case e of None \<Rightarrow> PyStr d | Some v \<Rightarrow> v)"

text \<open>Python truthiness: \<open>None\<close> and the empty string are false.\<close>

fun truthy :: "pyval \<Rightarrow> bool" where
  "truthy PyNone = False"
| "truthy (PyStr s) = (s \<noteq> [])"

text \<open>What an f-string prints for a value: \<open>None\<close> is printed as the text \<open>None\<close>.\<close>

fun format :: "pyval \<Rightarrow> string" where
  "format PyNone = ''None''"
| "format (PyStr s) = s"

definition nl :: string where
  "nl = [CHR 0x0A]"

section \<open>The input gathering node\<close>

text \<open>
  \<open>all([state.get('industry'), state.get('contract_type'), state.get('location')])\<close>
\<close>

definition all_details :: "ContractState \<Rightarrow> bool" where
  "all_details state =
     list_all truthy [get (industry state), get (contract_type state), get (location state)]"

text \<open>The four requests of the clarification prompt, one per line of the source.\<close>

definition request_industry :: string where
  "request_industry =
     ''1. What industry are you looking for contracts in? (e.g., IT, Construction, Marketing)''"

definition request_contract_type :: string where
  "request_contract_type =
     ''2. What type of contract are you seeking? (e.g., Full-time, Part-time, Project-based)''"

definition request_location :: string where
  "request_location = ''3. In which location are you looking for contracts?''"

definition request_budget :: string where
  "request_budget = ''4. Do you have a specific budget range in mind?''"

definition clarification_prompt :: string where
  "clarification_prompt =
     ''I'll help you find contract opportunities. '' @
     ''Could you please provide more details:'' @ nl @
     request_industry @ nl @
     request_contract_type @ nl @
     request_location @ nl @
     request_budget"

definition acknowledgment :: string where
  "acknowledgment = ''Great! I'll search for contract opportunities based on your details.''"

text \<open>A dictionary with the single key \<open>messages\<close>.\<close>

definition messages_only :: "message list \<Rightarrow> ContractState" where
  "messages_only ms =
     \<lparr>messages = Some ms, industry = None, contract_type = None, location = None,
      budget_range = None\<rparr>"

definition gather_contract_details :: "ContractState \<Rightarrow> ContractState" where
  "gather_contract_details state =
     (if \<not> all_details state then messages_only [AIMessage clarification_prompt]
      else messages_only [AIMessage acknowledgment])"

section \<open>Routing\<close>

text \<open>\<open>isinstance(m, HumanMessage)\<close>\<close>

fun is_human :: "message \<Rightarrow> bool" where
  "is_human (HumanMessage c) = True"
| "is_human (AIMessage c) = False"

text \<open>
  \<open>state.get("messages", [])\<close>, then \<open>messages and isinstance(messages[-1], HumanMessage)\<close>:
  an empty list is false, so \<open>messages[-1]\<close> is read on a non-empty list only.
\<close>

definition route_to_search :: "ContractState \<Rightarrow> string" where
  "route_to_search state =
     (let msgs = (case messages state of None \<Rightarrow> [] | Some ms \<Rightarrow> ms) in
      if msgs \<noteq> [] \<and> is_human (last msgs) then
        (if \<not> all_details state then ''input_gathering'' else ''contract_search'')
      else ''contract_search'')"

section \<open>The contract search node\<close>

text \<open>The f-string of \<open>safe_search_contracts\<close> that builds the query.\<close>

definition search_query :: "ContractState \<Rightarrow> string" where
  "search_query state =
     ''Latest '' @ format (get_default (contract_type state) '''') @ '' contract opportunities '' @
     ''in '' @ format (get_default (industry state) '''') @ '' industry '' @
     ''located in '' @ format (get_default (location state) '''') @ '' '' @
     ''with budget range '' @ format (get_default (budget_range state) ''any'')"

text \<open>
  A raised exception: \<open>PyException msg\<close> is an instance of \<open>Exception\<close> or of one of its
  subclasses, with its message; \<open>PyBaseException name\<close> is an instance of a class that
  derives from \<open>BaseException\<close> but not from \<open>Exception\<close> (\<open>KeyboardInterrupt\<close>,
  \<open>SystemExit\<close>, \<open>GeneratorExit\<close>), with the name of its class.
\<close>

datatype py_exception = PyException string | PyBaseException string

text \<open>\<open>isinstance(e, Exception)\<close>: what the clause \<open>except Exception\<close> catches.\<close>

fun is_Exception :: "py_exception \<Rightarrow> bool" where
  "is_Exception (PyException msg) = True"
| "is_Exception (PyBaseException name) = False"

text \<open>
  The search tool is an external collaborator: \<open>search_tool.invoke\<close> is a parameter of the
  model, a function from the query to either a raised exception (\<open>Inl\<close>) or the list of
  raw results (\<open>Inr\<close>). A raw result is a dictionary from keys to strings.
\<close>

type_synonym raw_result = "string \<rightharpoonup> string"

type_synonym search_tool = "string \<Rightarrow> py_exception + raw_result list"

text \<open>The processed result: a dictionary with exactly the keys title, url and content.\<close>

record SearchResult =
  title :: string
  url :: string
  content :: string

text \<open>\<open>result.get(k, default)\<close> on a raw result.\<close>

definition result_get :: "raw_result \<Rightarrow> string \<Rightarrow> string \<Rightarrow> string" where
  "result_get result k d = (case result k of None \<Rightarrow> d | Some v \<Rightarrow> v)"

definition process_result :: "raw_result \<Rightarrow> SearchResult" where
  "process_result result =
     \<lparr>title = result_get result ''title'' ''Untitled Contract Opportunity'',
      url = result_get result ''url'' ''No URL available'',
      content = result_get result ''content'' ''No description available''\<rparr>"

text \<open>
  The \<open>try\<close> block of \<open>safe_search_contracts\<close> with its clause \<open>except Exception\<close>: an
  exception of the tool that is an instance of \<open>Exception\<close> is caught and the empty list
  returned (the line printed to the console is not part of the model); any other raised
  exception leaves the function.
\<close>

definition safe_search_contracts ::
    "search_tool \<Rightarrow> ContractState \<Rightarrow> py_exception + SearchResult list" where
  "safe_search_contracts tool state =
     (case tool (search_query state) of
        Inl e \<Rightarrow> if is_Exception e then Inr [] else Inl e
      | Inr search_results \<Rightarrow> Inr (map process_result search_results))"

text \<open>\<open>str(n)\<close> of a natural number, in decimal.\<close>

fun str_nat :: "nat \<Rightarrow> string" where
  "str_nat n =
     (if n < 10 then [char_of (48 + n)]
      else str_nat (n div 10) @ [char_of (48 + n mod 10)])"

text \<open>\<open>sep.join(xs)\<close>\<close>

fun join :: "string \<Rightarrow> string list \<Rightarrow> string" where
  "join sep [] = []"
| "join sep [x] = x"
| "join sep (x # y # ys) = x @ sep @ join sep (y # ys)"

text \<open>One entry of the list, for the pair \<open>(i, result)\<close> of \<open>enumerate\<close>.\<close>

definition format_result :: "nat \<times> SearchResult \<Rightarrow> string" where
  "format_result p =
     (case p of (i, result) \<Rightarrow>
        str_nat (i + 1) @ ''. '' @ title result @ nl @
        ''   URL: '' @ url result @ nl @
        ''   Description: '' @ take 200 (content result) @ ''...'')"

definition no_results_message :: string where
  "no_results_message =
     ''I'm sorry, but I couldn't find any contract opportunities matching your criteria. '' @
     ''Would you like to modify your search parameters?''"

definition results_header :: string where
  "results_header = ''I've found some contract opportunities matching your criteria:'' @ nl @ nl"

definition render_results :: "SearchResult list \<Rightarrow> message" where
  "render_results search_results =
     (if search_results = [] then AIMessage no_results_message
      else AIMessage (results_header @
             join (nl @ nl) (map format_result (enumerate 0 search_results))))"

text \<open>
  \<open>search_contracts\<close> has no handler of its own: an exception that leaves
  \<open>safe_search_contracts\<close> leaves \<open>search_contracts\<close> too.
\<close>

definition search_contracts ::
    "search_tool \<Rightarrow> ContractState \<Rightarrow> py_exception + ContractState" where
  "search_contracts tool state =
     (case safe_search_contracts tool state of
        Inl e \<Rightarrow> Inl e
      | Inr search_results \<Rightarrow> Inr (messages_only [render_results search_results]))"

section \<open>String operations used by the interactive loop\<close>

text \<open>
  \<open>str.lower()\<close> on the Latin-1 range: the upper-case letters are A to Z (65 to 90) and
  the accented capitals 192 to 222 without the multiplication sign 215; each is 32 below
  its lower-case letter.
\<close>

definition lower_char :: "char \<Rightarrow> char" where
  "lower_char c =
     (let n = (of_char c :: nat) in
      if (65 \<le> n \<and> n \<le> 90) \<or> (192 \<le> n \<and> n \<le> 222 \<and> n \<noteq> 215) then char_of (n + 32) else c)"

definition lower :: "string \<Rightarrow> string" where
  "lower s = map lower_char s"

text \<open>
  \<open>str.strip()\<close> removes the leading and trailing white space; on the Latin-1 range the
  white space characters are 9 to 13, 28 to 32, 133 and 160.
\<close>

definition is_space :: "char \<Rightarrow> bool" where
  "is_space c =
     (let n = (of_char c :: nat) in
      (9 \<le> n \<and> n \<le> 13) \<or> (28 \<le> n \<and> n \<le> 32) \<or> n = 133 \<or> n = 160)"

definition strip :: "string \<Rightarrow> string" where
  "strip s = rev (dropWhile is_space (rev (dropWhile is_space s)))"

text \<open>\<open>sub in s\<close> on strings: \<open>sub\<close> occurs in \<open>s\<close> as a contiguous substring.\<close>

fun py_in :: "string \<Rightarrow> string \<Rightarrow> bool" where
  "py_in sub [] = (sub = [])"
| "py_in sub (c # cs) = (take (length sub) (c # cs) = sub \<or> py_in sub cs)"

datatype error = KeyError string | ValueError string

text \<open>
  \<open>s.split(sep)\<close> scans from the left for occurrences of \<open>sep\<close> that do not overlap;
  \<open>cur\<close> holds, reversed, the piece read since the last occurrence.
\<close>

function split_from :: "string \<Rightarrow> string \<Rightarrow> string \<Rightarrow> string list" where
  "split_from sep cur [] = [rev cur]"
| "split_from sep cur (c # cs) =
     (if sep \<noteq> [] \<and> take (length sep) (c # cs) = sep
      then rev cur # split_from sep [] (drop (length sep) (c # cs))
      else split_from sep (c # cur) cs)"
  by pat_completeness auto
termination
  by (relation "measure (\<lambda>(sep, cur, s). length s)") (auto simp: neq_Nil_conv)

text \<open>An empty separator raises \<open>ValueError\<close>.\<close>

definition split :: "string \<Rightarrow> string \<Rightarrow> error + string list" where
  "split s sep = (if sep = [] then Inl (ValueError ''empty separator'') else Inr (split_from sep [] s))"

section \<open>Field extraction in the interactive loop\<close>

text \<open>
  The dictionary \<open>initial_state\<close> of \<open>run_contract_finder\<close>: every key is present, the four
  fields with the value \<open>None\<close>.
\<close>

definition initial_state :: ContractState where
  "initial_state =
     \<lparr>messages = Some [], industry = Some PyNone, contract_type = Some PyNone,
      location = Some PyNone, budget_range = Some PyNone\<rparr>"

text \<open>\<open>d[k]\<close> raises \<open>KeyError\<close> on an absent key.\<close>

definition getitem :: "pyval option \<Rightarrow> string \<Rightarrow> error + pyval" where
  "getitem e k = (case e of None \<Rightarrow> Inl (KeyError k) | Some v \<Rightarrow> Inr v)"

text \<open>The value assigned to a field: \<open>user_input.split(keyword)[-1].strip()\<close>.\<close>

definition extracted :: "string \<Rightarrow> string \<Rightarrow> error + pyval" where
  "extracted user_input keyword =
     (case split user_input keyword of
        Inl e \<Rightarrow> Inl e
      | Inr parts \<Rightarrow> Inr (PyStr (strip (last parts))))"

text \<open>
  The four \<open>if\<close> statements of the loop body (lines 198 to 205), each reading the field
  with \<open>initial_state[k]\<close> first, then testing the lower-cased input for the keyword.
\<close>

definition check_industry :: "string \<Rightarrow> ContractState \<Rightarrow> error + ContractState" where
  "check_industry user_input st =
     (case getitem (industry st) ''industry'' of
        Inl e \<Rightarrow> Inl e
      | Inr v \<Rightarrow>
          if \<not> truthy v \<and> py_in ''industry'' (lower user_input) then
            (case extracted user_input ''industry'' of
               Inl e \<Rightarrow> Inl e
             | Inr w \<Rightarrow> Inr (st\<lparr>industry := Some w\<rparr>))
          else Inr st)"

definition check_contract_type :: "string \<Rightarrow> ContractState \<Rightarrow> error + ContractState" where
  "check_contract_type user_input st =
     (case getitem (contract_type st) ''contract_type'' of
        Inl e \<Rightarrow> Inl e
      | Inr v \<Rightarrow>
          if \<not> truthy v \<and> py_in ''contract type'' (lower user_input) then
            (case extracted user_input ''contract type'' of
               Inl e \<Rightarrow> Inl e
             | Inr w \<Rightarrow> Inr (st\<lparr>contract_type := Some w\<rparr>))
          else Inr st)"

definition check_location :: "string \<Rightarrow> ContractState \<Rightarrow> error + ContractState" where
  "check_location user_input st =
     (case getitem (location st) ''location'' of
        Inl e \<Rightarrow> Inl e
      | Inr v \<Rightarrow>
          if \<not> truthy v \<and> list_ex (\<lambda>loc. py_in loc (lower user_input)) [''in'', ''location''] then
            (case extracted user_input ''location'' of
               Inl e \<Rightarrow> Inl e
             | Inr w \<Rightarrow> Inr (st\<lparr>location := Some w\<rparr>))
          else Inr st)"

definition check_budget_range :: "string \<Rightarrow> ContractState \<Rightarrow> error + ContractState" where
  "check_budget_range user_input st =
     (case getitem (budget_range st) ''budget_range'' of
        Inl e \<Rightarrow> Inl e
      | Inr v \<Rightarrow>
          if \<not> truthy v \<and> py_in ''budget'' (lower user_input) then
            (case extracted user_input ''budget'' of
               Inl e \<Rightarrow> Inl e
             | Inr w \<Rightarrow> Inr (st\<lparr>budget_range := Some w\<rparr>))
          else Inr st)"

text \<open>Sequencing of statements: an exception ends the sequence.\<close>

definition and_then :: "error + ContractState \<Rightarrow> (ContractState \<Rightarrow> error + ContractState)
    \<Rightarrow> error + ContractState" where
  "and_then r f = (case r of Inl e \<Rightarrow> Inl e | Inr st \<Rightarrow> f st)"

definition extract_details :: "string \<Rightarrow> ContractState \<Rightarrow> error + ContractState" where
  "extract_details user_input st =
     and_then (and_then (and_then (check_industry user_input st)
       (check_contract_type user_input)) (check_location user_input))
       (check_budget_range user_input)"

text \<open>
  The extraction checks of the loop run once for every event of every turn, each with the
  input of its turn; \<open>extract_all\<close> runs them for a list of such inputs, in order. An
  exception ends the loop.
\<close>

fun extract_all :: "string list \<Rightarrow> ContractState \<Rightarrow> error + ContractState" where
  "extract_all [] st = Inr st"
| "extract_all (user_input # rest) st =
     (case extract_details user_input st of
        Inl e \<Rightarrow> Inl e
      | Inr st' \<Rightarrow> extract_all rest st')"

section \<open>Vocabulary of the specification\<close>

text \<open>
  A field is unset when it holds no string: its key is absent or its value is \<open>None\<close>.
  A field holding the empty string is set, to the empty string.
\<close>

definition unset :: "pyval option \<Rightarrow> bool" where
  "unset e = (e = None \<or> e = Some PyNone)"

definition is_set :: "pyval option \<Rightarrow> bool" where
  "is_set e = (\<not> unset e)"

text \<open>A field is blank when it is unset or holds the empty string.\<close>

definition blank :: "pyval option \<Rightarrow> bool" where
  "blank e = (unset e \<or> e = Some (PyStr []))"

text \<open>
  The message sequence of a state (empty when the key is absent), and whether its last
  message exists and is authored by the user.
\<close>

definition message_sequence :: "ContractState \<Rightarrow> message list" where
  "message_sequence state = (case messages state of None \<Rightarrow> [] | Some ms \<Rightarrow> ms)"

definition user_turn :: "ContractState \<Rightarrow> bool" where
  "user_turn state = (message_sequence state \<noteq> [] \<and> is_human (last (message_sequence state)))"

text \<open>One of the three required fields holds the empty string.\<close>

definition has_empty_field :: "ContractState \<Rightarrow> bool" where
  "has_empty_field state =
     (industry state = Some (PyStr []) \<or> contract_type state = Some (PyStr []) \<or>
      location state = Some (PyStr []))"

text \<open>
  A state whose industry holds the empty string, as the interactive loop leaves it after
  the input \<open>industry\<close> (the text after the keyword is empty), with the other two required
  fields filled in and a user-authored last message.
\<close>

definition empty_industry_state :: ContractState where
  "empty_industry_state =
     \<lparr>messages = Some [HumanMessage ''industry''], industry = Some (PyStr []),
      contract_type = Some (PyStr ''Full-time''), location = Some (PyStr ''Austin''),
      budget_range = Some PyNone\<rparr>"

text \<open>The state of the example scenario: the budget range holds \<open>None\<close>.\<close>

definition austin_state :: ContractState where
  "austin_state =
     \<lparr>messages = Some [HumanMessage ''find me contracts''], industry = Some (PyStr ''IT''),
      contract_type = Some (PyStr ''Full-time''), location = Some (PyStr ''Austin''),
      budget_range = Some PyNone\<rparr>"

text \<open>
  The entry of a result in the rendered list, as the specification describes it: its
  number, title, URL and the snippet.
\<close>

definition numbered_entry :: "nat \<Rightarrow> SearchResult \<Rightarrow> string" where
  "numbered_entry n r =
     str_nat n @ ''. '' @ title r @ nl @
     ''   URL: '' @ url r @ nl @
     ''   Description: '' @ take 200 (content r) @ ''...''"

text \<open>
  The part of an entry before its snippet; two raw results, one with a content of 250
  characters and one with a short content, and the entries rendered for them.
\<close>

definition entry_head :: "nat \<Rightarrow> SearchResult \<Rightarrow> string" where
  "entry_head n r =
     str_nat n @ ''. '' @ title r @ nl @
     ''   URL: '' @ url r @ nl @
     ''   Description: ''"

definition long_results :: "raw_result list" where
  "long_results =
     [[''title'' \<mapsto> ''Long'', ''url'' \<mapsto> ''u'', ''content'' \<mapsto> replicate 250 (CHR ''a'')],
      [''title'' \<mapsto> ''Short'', ''url'' \<mapsto> ''v'', ''content'' \<mapsto> ''abc'']]"

definition long_entries :: string where
  "long_entries =
     ''1. Long'' @ nl @ ''   URL: u'' @ nl @
     ''   Description: '' @ replicate 200 (CHR ''a'') @ ''...'' @ nl @ nl @
     ''2. Short'' @ nl @ ''   URL: v'' @ nl @
     ''   Description: abc...''"

text \<open>
  A search tool that raises an instance of \<open>Exception\<close>, one that is interrupted from the
  keyboard, and raw results with missing keys.
\<close>

definition failing_tool :: search_tool where
  "failing_tool query = Inl (PyException ''timeout'')"

definition interrupted_tool :: search_tool where
  "interrupted_tool query = Inl (PyBaseException ''KeyboardInterrupt'')"

definition two_results :: "raw_result list" where
  "two_results =
     [[''title'' \<mapsto> ''Backend developer'', ''content'' \<mapsto> ''Six months''],
      [''url'' \<mapsto> ''https://example.org/b'']]"

definition two_entries :: string where
  "two_entries =
     ''1. Backend developer'' @ nl @
     ''   URL: No URL available'' @ nl @
     ''   Description: Six months...'' @ nl @ nl @
     ''2. Untitled Contract Opportunity'' @ nl @
     ''   URL: https://example.org/b'' @ nl @
     ''   Description: No description available...''"

text \<open>
  The dictionary of the interactive loop has all four field keys. \<open>keeps st st'\<close>: from
  \<open>st\<close> to \<open>st'\<close> the messages and every field holding a non-empty string are
  unchanged.
\<close>

definition all_keys :: "ContractState \<Rightarrow> bool" where
  "all_keys st =
     (industry st \<noteq> None \<and> contract_type st \<noteq> None \<and> location st \<noteq> None \<and>
      budget_range st \<noteq> None)"

definition keeps :: "ContractState \<Rightarrow> ContractState \<Rightarrow> bool" where
  "keeps st st' =
     (all_keys st' \<and> messages st' = messages st \<and>
      (\<not> blank (industry st) \<longrightarrow> industry st' = industry st) \<and>
      (\<not> blank (contract_type st) \<longrightarrow> contract_type st' = contract_type st) \<and>
      (\<not> blank (location st) \<longrightarrow> location st' = location st) \<and>
      (\<not> blank (budget_range st) \<longrightarrow> budget_range st' = budget_range st))"

text \<open>
  Two turns of the interactive loop: the input \<open>industry\<close>, then the input
  \<open>industry IT\<close>, each appended to the messages before the checks run.
\<close>

definition first_turn :: ContractState where
  "first_turn = initial_state\<lparr>messages := Some [HumanMessage ''industry'']\<rparr>"

definition after_first_turn :: ContractState where
  "after_first_turn =
     \<lparr>messages = Some [HumanMessage ''industry''], industry = Some (PyStr []),
      contract_type = Some PyNone, location = Some (PyStr ''industry''),
      budget_range = Some PyNone\<rparr>"

definition second_turn :: ContractState where
  "second_turn =
     after_first_turn\<lparr>messages := Some [HumanMessage ''industry'', HumanMessage ''industry IT'']\<rparr>"

text \<open>A turn with the industry known and the location still \<open>None\<close>, and later inputs.\<close>

definition austin_turn :: ContractState where
  "austin_turn = initial_state\<lparr>messages := Some [HumanMessage ''  Full-time work in Austin ''],
     industry := Some (PyStr ''IT'')\<rparr>"

definition later_inputs :: "string list" where
  "later_inputs = [''industry finance'', ''industry finance'', ''located in Paris'']"

section \<open>Helper lemmas\<close>

lemma truthy_get_iff: "truthy (get e) = (\<not> blank e)"
  by (cases e; cases "the e") (auto simp: get_def blank_def unset_def)

lemma all_details_iff:
  "all_details state =
     (\<not> blank (industry state) \<and> \<not> blank (contract_type state) \<and> \<not> blank (location state))"
  by (simp add: all_details_def truthy_get_iff)

lemma route_cases:
  "route_to_search state =
     (if user_turn state \<and> \<not> all_details state then ''input_gathering'' else ''contract_search'')"
  by (simp add: route_to_search_def user_turn_def message_sequence_def Let_def)

lemma prompts_differ: "clarification_prompt \<noteq> acknowledgment"
  by (simp add: clarification_prompt_def acknowledgment_def)

lemma py_in_prefix: "py_in sub (sub @ post)"
proof (cases "sub @ post")
  case Nil
  then show ?thesis by simp
next
  case (Cons a list)
  have "take (length sub) (sub @ post) = sub" by simp
  then show ?thesis by (simp add: Cons)
qed

lemma py_in_append: "py_in sub (pre @ sub @ post)"
  by (induction pre) (auto simp: py_in_prefix)

lemma prompt_lists_four:
  "py_in request_industry clarification_prompt"
  "py_in request_contract_type clarification_prompt"
  "py_in request_location clarification_prompt"
  "py_in request_budget clarification_prompt"
proof -
  show "py_in request_industry clarification_prompt"
    unfolding clarification_prompt_def
    using py_in_append [of request_industry
        "''I'll help you find contract opportunities. '' @
         ''Could you please provide more details:'' @ nl"
        "nl @ request_contract_type @ nl @ request_location @ nl @ request_budget"]
    by (simp only: append_assoc)
  show "py_in request_contract_type clarification_prompt"
    unfolding clarification_prompt_def
    using py_in_append [of request_contract_type
        "''I'll help you find contract opportunities. '' @
         ''Could you please provide more details:'' @ nl @ request_industry @ nl"
        "nl @ request_location @ nl @ request_budget"]
    by (simp only: append_assoc)
  show "py_in request_location clarification_prompt"
    unfolding clarification_prompt_def
    using py_in_append [of request_location
        "''I'll help you find contract opportunities. '' @
         ''Could you please provide more details:'' @ nl @ request_industry @ nl @
         request_contract_type @ nl"
        "nl @ request_budget"]
    by (simp only: append_assoc)
  show "py_in request_budget clarification_prompt"
    unfolding clarification_prompt_def
    using py_in_append [of request_budget
        "''I'll help you find contract opportunities. '' @
         ''Could you please provide more details:'' @ nl @ request_industry @ nl @
         request_contract_type @ nl @ request_location @ nl"
        "[]"]
    by (simp only: append_assoc append_Nil2)
qed

lemma empty_field_not_all: "has_empty_field state \<Longrightarrow> \<not> all_details state"
  by (auto simp: has_empty_field_def all_details_iff blank_def)

lemma all_details_empty_unset:
  assumes "unset e"
  shows "all_details (state\<lparr>industry := Some (PyStr [])\<rparr>) = all_details (state\<lparr>industry := e\<rparr>)"
    and "all_details (state\<lparr>contract_type := Some (PyStr [])\<rparr>)
           = all_details (state\<lparr>contract_type := e\<rparr>)"
    and "all_details (state\<lparr>location := Some (PyStr [])\<rparr>) = all_details (state\<lparr>location := e\<rparr>)"
  using assms by (auto simp: all_details_def get_def unset_def)

lemma user_turn_scalar:
  "user_turn (state\<lparr>industry := v\<rparr>) = user_turn state"
  "user_turn (state\<lparr>contract_type := v\<rparr>) = user_turn state"
  "user_turn (state\<lparr>location := v\<rparr>) = user_turn state"
  by (simp_all add: user_turn_def message_sequence_def)

lemma map_enumerate:
  "map f (enumerate 0 xs) = map (\<lambda>i. f (i, xs ! i)) [0..<length xs]"
  by (rule nth_equalityI) (simp_all add: nth_enumerate_eq)

lemma format_result_numbered: "format_result (i, r) = numbered_entry (Suc i) r"
  by (simp add: format_result_def numbered_entry_def)

lemma render_results_numbered:
  assumes "rs \<noteq> []"
  shows "render_results rs =
     AIMessage (results_header @
       join (nl @ nl) (map (\<lambda>i. numbered_entry (Suc i) (rs ! i)) [0..<length rs]))"
  using assms by (simp add: render_results_def map_enumerate format_result_numbered)

lemma numbered_processed:
  "map (\<lambda>i. numbered_entry (Suc i) (map process_result raw ! i)) [0..<length raw]
     = map (\<lambda>i. numbered_entry (Suc i) (process_result (raw ! i))) [0..<length raw]"
  by (rule map_cong) simp_all

lemma numbered_entry_head:
  "numbered_entry n r = entry_head n r @ take 200 (content r) @ ''...''"
  by (simp add: numbered_entry_def entry_head_def)

lemma search_contracts_processed:
  assumes "tool (search_query state) = Inr raw" and "raw \<noteq> []"
  shows "search_contracts tool state =
           Inr (messages_only [AIMessage (results_header @
             join (nl @ nl)
               (map (\<lambda>i. numbered_entry (Suc i) (process_result (raw ! i))) [0..<length raw]))])"
proof -
  from assms have s: "safe_search_contracts tool state = Inr (map process_result raw)"
    by (simp add: safe_search_contracts_def)
  from assms have "map process_result raw \<noteq> []"
    by simp
  from render_results_numbered [OF this] s show ?thesis
    by (simp add: search_contracts_def numbered_processed)
qed

lemma str_nat_small: "str_nat (Suc 0) = ''1''" "str_nat (Suc (Suc 0)) = ''2''"
  by code_simp+

lemma upt_two: "[0..<length two_results] = [0, 1]"
  by (simp add: two_results_def upt_rec)


lemma keeps_refl: "all_keys st \<Longrightarrow> keeps st st"
  by (simp add: keeps_def)

lemma keeps_trans: "keeps a b \<Longrightarrow> keeps b c \<Longrightarrow> keeps a c"
  by (auto simp: keeps_def)

lemma truthy_not_blank: "e = Some v \<Longrightarrow> truthy v = (\<not> blank e)"
  by (cases v) (auto simp: blank_def unset_def)

lemma extracted_ok: "sep \<noteq> [] \<Longrightarrow> \<exists>w. extracted u sep = Inr w"
  by (simp add: extracted_def split_def)

lemma check_industry_keeps:
  assumes "all_keys st"
  shows "\<exists>st'. check_industry u st = Inr st' \<and> keeps st st'"
proof -
  from assms obtain v where v: "industry st = Some v"
    by (auto simp: all_keys_def)
  obtain w where w: "extracted u ''industry'' = Inr w"
    using extracted_ok [of "''industry''" u] by auto
  show ?thesis
    using assms v w truthy_not_blank [OF v]
    by (auto simp: check_industry_def getitem_def keeps_def all_keys_def)
qed

lemma check_contract_type_keeps:
  assumes "all_keys st"
  shows "\<exists>st'. check_contract_type u st = Inr st' \<and> keeps st st'"
proof -
  from assms obtain v where v: "contract_type st = Some v"
    by (auto simp: all_keys_def)
  obtain w where w: "extracted u ''contract type'' = Inr w"
    using extracted_ok [of "''contract type''" u] by auto
  show ?thesis
    using assms v w truthy_not_blank [OF v]
    by (auto simp: check_contract_type_def getitem_def keeps_def all_keys_def)
qed

lemma check_location_keeps:
  assumes "all_keys st"
  shows "\<exists>st'. check_location u st = Inr st' \<and> keeps st st'"
proof -
  from assms obtain v where v: "location st = Some v"
    by (auto simp: all_keys_def)
  obtain w where w: "extracted u ''location'' = Inr w"
    using extracted_ok [of "''location''" u] by auto
  show ?thesis
    using assms v w truthy_not_blank [OF v]
    by (auto simp: check_location_def getitem_def keeps_def all_keys_def)
qed

lemma check_budget_range_keeps:
  assumes "all_keys st"
  shows "\<exists>st'. check_budget_range u st = Inr st' \<and> keeps st st'"
proof -
  from assms obtain v where v: "budget_range st = Some v"
    by (auto simp: all_keys_def)
  obtain w where w: "extracted u ''budget'' = Inr w"
    using extracted_ok [of "''budget''" u] by auto
  show ?thesis
    using assms v w truthy_not_blank [OF v]
    by (auto simp: check_budget_range_def getitem_def keeps_def all_keys_def)
qed

lemma keeps_keys: "keeps st st' \<Longrightarrow> all_keys st'"
  by (simp add: keeps_def)

lemma extract_details_keeps:
  assumes "all_keys st"
  shows "\<exists>st'. extract_details u st = Inr st' \<and> keeps st st'"
proof -
  obtain s1 where s1: "check_industry u st = Inr s1" "keeps st s1"
    using check_industry_keeps [OF assms] by blast
  obtain s2 where s2: "check_contract_type u s1 = Inr s2" "keeps s1 s2"
    using check_contract_type_keeps [OF keeps_keys [OF s1(2)]] by blast
  obtain s3 where s3: "check_location u s2 = Inr s3" "keeps s2 s3"
    using check_location_keeps [OF keeps_keys [OF s2(2)]] by blast
  obtain s4 where s4: "check_budget_range u s3 = Inr s4" "keeps s3 s4"
    using check_budget_range_keeps [OF keeps_keys [OF s3(2)]] by blast
  have "extract_details u st = Inr s4"
    by (simp add: extract_details_def and_then_def s1 s2 s3 s4)
  moreover have "keeps st s4"
    using s1(2) s2(2) s3(2) s4(2) by (blast intro: keeps_trans)
  ultimately show ?thesis by blast
qed

lemma extract_all_keeps:
  "all_keys st \<Longrightarrow> \<exists>st'. extract_all inputs st = Inr st' \<and> keeps st st'"
proof (induction inputs arbitrary: st)
  case Nil
  then show ?case by (simp add: keeps_refl)
next
  case (Cons u rest)
  obtain s1 where s1: "extract_details u st = Inr s1" "keeps st s1"
    using extract_details_keeps [OF Cons.prems] by blast
  obtain s2 where s2: "extract_all rest s1 = Inr s2" "keeps s1 s2"
    using Cons.IH [OF keeps_keys [OF s1(2)]] by blast
  have "extract_all (u # rest) st = Inr s2"
    by (simp add: s1 s2)
  with s1 s2 show ?case
    by (blast intro: keeps_trans)
qed

lemma split_from_absent:
  "\<not> py_in sep s \<Longrightarrow> split_from sep cur s = [rev cur @ s]"
  by (induction s arbitrary: cur) auto

lemma py_in_lower: "py_in sub s \<Longrightarrow> py_in (lower sub) (lower s)"
proof (induction s)
  case Nil
  then show ?case by (simp add: lower_def)
next
  case (Cons c cs)
  show ?case
  proof (cases "take (length sub) (c # cs) = sub")
    case True
    then have "take (length (lower sub)) (lower (c # cs)) = lower sub"
      unfolding lower_def by (metis length_map take_map)
    then show ?thesis
      by (simp add: lower_def)
  next
    case False
    with Cons.prems have "py_in sub cs" by simp
    then have "py_in (lower sub) (lower cs)" by (rule Cons.IH)
    then show ?thesis by (simp add: lower_def)
  qed
qed

lemma lower_location: "lower ''location'' = ''location''"
  by code_simp

lemma no_location: "\<not> py_in ''location'' (lower u) \<Longrightarrow> \<not> py_in ''location'' u"
  using py_in_lower [of "''location''" u] by (auto simp: lower_location)

lemma extracted_absent:
  assumes "sep \<noteq> []" and "\<not> py_in sep u"
  shows "extracted u sep = Inr (PyStr (strip u))"
  using assms by (simp add: extracted_def split_def split_from_absent)

lemma check_location_whole:
  assumes "location st = Some v" and "\<not> truthy v"
    and "py_in ''in'' (lower u)" and "\<not> py_in ''location'' (lower u)"
  shows "check_location u st = Inr (st\<lparr>location := Some (PyStr (strip u))\<rparr>)"
proof -
  have "extracted u ''location'' = Inr (PyStr (strip u))"
    using no_location [OF assms(4)] by (simp add: extracted_absent)
  with assms show ?thesis
    by (simp add: check_location_def getitem_def)
qed

lemma check_industry_location:
  "check_industry u st = Inr st' \<Longrightarrow> location st' = location st"
  by (auto simp: check_industry_def getitem_def split: option.splits sum.splits if_splits)

lemma check_contract_type_location:
  "check_contract_type u st = Inr st' \<Longrightarrow> location st' = location st"
  by (auto simp: check_contract_type_def getitem_def split: option.splits sum.splits if_splits)

lemma check_budget_range_location:
  "check_budget_range u st = Inr st' \<Longrightarrow> location st' = location st"
  by (auto simp: check_budget_range_def getitem_def split: option.splits sum.splits if_splits)

lemma austin_facts:
  "py_in ''in'' (lower ''  Full-time work in Austin '')"
  "\<not> py_in ''location'' (lower ''  Full-time work in Austin '')"
  "strip ''  Full-time work in Austin '' = ''Full-time work in Austin''"
  by code_simp+

section \<open>The routing decision\<close>

text \<open>
  Claim C1, as stated: the routing decision returns \<open>input_gathering\<close> if and only if the
  message sequence is non-empty, its last message is user-authored and at least one of
  industry, contract type and location is unset. It fails on a state whose required fields
  are all set, one of them to the empty string: the routing decision still returns
  \<open>input_gathering\<close>.
\<close>

theorem route_to_search_unset_counterexample:
  "route_to_search empty_industry_state = ''input_gathering'' \<and>
   \<not> (unset (industry empty_industry_state) \<or> unset (contract_type empty_industry_state) \<or>
      unset (location empty_industry_state))"
  by (simp add: route_cases user_turn_def message_sequence_def all_details_def get_def
      empty_industry_state_def unset_def)

text \<open>
  Claim C1, amended: for every state, the routing decision returns \<open>input_gathering\<close> if
  and only if the message sequence is non-empty, its last message is user-authored and at
  least one of industry, contract type and location is unset or the empty string; in every
  other case (the last message authored by the assistant, the message sequence empty, all
  three fields non-empty) it returns \<open>contract_search\<close>.
\<close>

theorem route_to_search_blank:
  "(route_to_search state = ''input_gathering'') =
     (user_turn state \<and>
      (blank (industry state) \<or> blank (contract_type state) \<or> blank (location state))) \<and>
   (route_to_search state = ''contract_search'') =
     (\<not> (user_turn state \<and>
      (blank (industry state) \<or> blank (contract_type state) \<or> blank (location state))))"
  by (auto simp: route_cases all_details_iff)

theorem route_to_search_blank_witness:
  "route_to_search empty_industry_state = ''input_gathering'' \<and>
   route_to_search (empty_industry_state\<lparr>messages := Some []\<rparr>) = ''contract_search'' \<and>
   route_to_search (empty_industry_state\<lparr>messages := Some [HumanMessage ''hi'', AIMessage ''ok'']\<rparr>)
     = ''contract_search'' \<and>
   route_to_search (empty_industry_state\<lparr>industry := Some (PyStr ''IT'')\<rparr>) = ''contract_search''"
  using route_to_search_blank [of empty_industry_state]
    route_to_search_blank [of "empty_industry_state\<lparr>messages := Some []\<rparr>"]
    route_to_search_blank
      [of "empty_industry_state\<lparr>messages := Some [HumanMessage ''hi'', AIMessage ''ok'']\<rparr>"]
    route_to_search_blank [of "empty_industry_state\<lparr>industry := Some (PyStr ''IT'')\<rparr>"]
  by (simp add: empty_industry_state_def user_turn_def message_sequence_def blank_def unset_def)

section \<open>The detail-gathering step\<close>

text \<open>
  Claim C3, as stated: when at least one required field is unset the step returns the
  clarification prompt, and when all three required fields are set it returns the
  acknowledgment. The second half fails on a state whose required fields are all set, one of
  them to the empty string: the step returns the clarification prompt.
\<close>

theorem gather_all_set_counterexample:
  "is_set (industry empty_industry_state) \<and> is_set (contract_type empty_industry_state) \<and>
   is_set (location empty_industry_state) \<and>
   gather_contract_details empty_industry_state = messages_only [AIMessage clarification_prompt] \<and>
   gather_contract_details empty_industry_state \<noteq> messages_only [AIMessage acknowledgment]"
  by (simp add: empty_industry_state_def is_set_def unset_def gather_contract_details_def
      all_details_def get_def messages_only_def prompts_differ)

text \<open>
  Claim C3, amended: for every state, the step returns a dictionary whose only key is
  \<open>messages\<close>, holding a single assistant message. Its text is the fixed clarification
  prompt, which lists all four requests, when at least one of industry, contract type and
  location is unset or the empty string, whatever the other fields hold; it is the fixed
  acknowledgment when all three hold a non-empty string. The returned dictionary has none
  of the four scalar keys, so the step changes no scalar field of the state.
\<close>

theorem gather_contract_details_blank:
  "gather_contract_details state =
     messages_only [AIMessage
       (if blank (industry state) \<or> blank (contract_type state) \<or> blank (location state)
        then clarification_prompt else acknowledgment)] \<and>
   py_in request_industry clarification_prompt \<and>
   py_in request_contract_type clarification_prompt \<and>
   py_in request_location clarification_prompt \<and>
   py_in request_budget clarification_prompt \<and>
   clarification_prompt \<noteq> acknowledgment \<and>
   industry (gather_contract_details state) = None \<and>
   contract_type (gather_contract_details state) = None \<and>
   location (gather_contract_details state) = None \<and>
   budget_range (gather_contract_details state) = None"
  by (simp add: gather_contract_details_def all_details_iff messages_only_def prompts_differ
      prompt_lists_four)

theorem gather_contract_details_blank_witness:
  "gather_contract_details empty_industry_state = messages_only [AIMessage clarification_prompt] \<and>
   gather_contract_details (empty_industry_state\<lparr>industry := Some (PyStr ''IT'')\<rparr>)
     = messages_only [AIMessage acknowledgment] \<and>
   gather_contract_details (empty_industry_state\<lparr>location := None\<rparr>)
     = messages_only [AIMessage clarification_prompt]"
  using gather_contract_details_blank [of empty_industry_state]
    gather_contract_details_blank [of "empty_industry_state\<lparr>industry := Some (PyStr ''IT'')\<rparr>"]
    gather_contract_details_blank [of "empty_industry_state\<lparr>location := None\<rparr>"]
  by (simp add: empty_industry_state_def blank_def unset_def)

section \<open>Empty strings in required fields\<close>

text \<open>
  Claim C10: a required field holding the empty string is treated like an unset field by
  the detail-gathering step and by the routing decision. With industry, contract type or
  location equal to the empty string the gathering step returns the clarification prompt
  and routing after a user-authored message returns \<open>input_gathering\<close>; and replacing
  the empty string in a required field by any unset entry changes neither result.
\<close>

theorem empty_string_like_unset:
  assumes "unset e"
  shows "(has_empty_field state \<longrightarrow>
      gather_contract_details state = messages_only [AIMessage clarification_prompt] \<and>
      (user_turn state \<longrightarrow> route_to_search state = ''input_gathering'')) \<and>
   gather_contract_details (state\<lparr>industry := Some (PyStr [])\<rparr>)
     = gather_contract_details (state\<lparr>industry := e\<rparr>) \<and>
   gather_contract_details (state\<lparr>contract_type := Some (PyStr [])\<rparr>)
     = gather_contract_details (state\<lparr>contract_type := e\<rparr>) \<and>
   gather_contract_details (state\<lparr>location := Some (PyStr [])\<rparr>)
     = gather_contract_details (state\<lparr>location := e\<rparr>) \<and>
   route_to_search (state\<lparr>industry := Some (PyStr [])\<rparr>)
     = route_to_search (state\<lparr>industry := e\<rparr>) \<and>
   route_to_search (state\<lparr>contract_type := Some (PyStr [])\<rparr>)
     = route_to_search (state\<lparr>contract_type := e\<rparr>) \<and>
   route_to_search (state\<lparr>location := Some (PyStr [])\<rparr>)
     = route_to_search (state\<lparr>location := e\<rparr>)"
  by (simp add: gather_contract_details_def route_cases empty_field_not_all
      all_details_empty_unset [OF assms] user_turn_scalar)

theorem empty_string_like_unset_witness:
  "unset (Some PyNone) \<and> has_empty_field empty_industry_state \<and>
   user_turn empty_industry_state \<and>
   gather_contract_details empty_industry_state = messages_only [AIMessage clarification_prompt] \<and>
   route_to_search empty_industry_state = ''input_gathering'' \<and>
   route_to_search (empty_industry_state\<lparr>industry := Some PyNone\<rparr>) = ''input_gathering''"
proof -
  have u: "unset (Some PyNone)"
    by (simp add: unset_def)
  have h: "has_empty_field empty_industry_state"
    by (simp add: has_empty_field_def empty_industry_state_def)
  have t: "user_turn empty_industry_state"
    by (simp add: user_turn_def message_sequence_def empty_industry_state_def)
  have s: "empty_industry_state\<lparr>industry := Some (PyStr [])\<rparr> = empty_industry_state"
    by (simp add: empty_industry_state_def)
  note c10 = empty_string_like_unset [OF u, of empty_industry_state]
  from c10 h t
  have a: "gather_contract_details empty_industry_state
             = messages_only [AIMessage clarification_prompt]"
    and b: "route_to_search empty_industry_state = ''input_gathering''"
    by blast+
  from c10
  have "route_to_search (empty_industry_state\<lparr>industry := Some (PyStr [])\<rparr>)
          = route_to_search (empty_industry_state\<lparr>industry := Some PyNone\<rparr>)"
    by blast
  with s b
  have c: "route_to_search (empty_industry_state\<lparr>industry := Some PyNone\<rparr>) = ''input_gathering''"
    by simp
  show ?thesis
    using u h t a b c by blast
qed

section \<open>The search step\<close>

text \<open>
  Claim C2 says that for the state with industry IT, contract type Full-time, location
  Austin and the budget range \<open>None\<close> the query ends in \<open>with budget range any\<close>.
  The default of \<open>state.get('budget_range', 'any')\<close> replaces an absent key only: with
  the key present and holding \<open>None\<close>, as in the state of the interactive loop, the
  f-string prints \<open>None\<close>. Only without the key does the query end in \<open>any\<close>.
\<close>

theorem search_query_budget_none:
  "search_query austin_state =
     ''Latest Full-time contract opportunities in IT industry located in Austin with budget range None'' \<and>
   search_query austin_state \<noteq>
     ''Latest Full-time contract opportunities in IT industry located in Austin with budget range any'' \<and>
   search_query (austin_state\<lparr>budget_range := None\<rparr>) =
     ''Latest Full-time contract opportunities in IT industry located in Austin with budget range any''"
  by (simp add: search_query_def austin_state_def get_default_def)

text \<open>
  Claim C4, as stated: whatever exception the search tool raises, the search step does not
  propagate it and behaves as for zero results. It fails for an exception that is not an
  instance of \<open>Exception\<close>: a \<open>KeyboardInterrupt\<close> raised during the search call is not
  caught by \<open>except Exception\<close> and leaves the search step.
\<close>

theorem search_interrupt_propagates_counterexample:
  "interrupted_tool (search_query austin_state) = Inl (PyBaseException ''KeyboardInterrupt'') \<and>
   search_contracts interrupted_tool austin_state = Inl (PyBaseException ''KeyboardInterrupt'') \<and>
   search_contracts (\<lambda>query. Inr []) austin_state = Inr (messages_only [AIMessage no_results_message]) \<and>
   search_contracts interrupted_tool austin_state \<noteq> search_contracts (\<lambda>query. Inr []) austin_state"
  by (simp add: interrupted_tool_def search_contracts_def safe_search_contracts_def
      render_results_def)

text \<open>
  Claim C4, amended: if the search tool raises an exception that is an instance of
  \<open>Exception\<close>, the search step does not fail: it returns what it returns for zero results,
  the single assistant message with the apology. An exception outside \<open>Exception\<close>
  (\<open>KeyboardInterrupt\<close>, \<open>SystemExit\<close>) leaves the search step.
\<close>

theorem search_failure_swallowed:
  assumes "tool (search_query state) = Inl e"
  shows "(is_Exception e \<longrightarrow>
            safe_search_contracts tool state = Inr [] \<and>
            search_contracts tool state = search_contracts (\<lambda>query. Inr []) state \<and>
            search_contracts tool state = Inr (messages_only [AIMessage no_results_message])) \<and>
         (\<not> is_Exception e \<longrightarrow> search_contracts tool state = Inl e)"
  using assms by (simp add: safe_search_contracts_def search_contracts_def render_results_def)

theorem search_failure_swallowed_witness:
  "failing_tool (search_query austin_state) = Inl (PyException ''timeout'') \<and>
   is_Exception (PyException ''timeout'') \<and>
   safe_search_contracts failing_tool austin_state = Inr [] \<and>
   search_contracts failing_tool austin_state = Inr (messages_only [AIMessage no_results_message])"
proof -
  have h: "failing_tool (search_query austin_state) = Inl (PyException ''timeout'')"
    by (simp add: failing_tool_def)
  have c: "is_Exception (PyException ''timeout'')"
    by simp
  show ?thesis
    using h c search_failure_swallowed [of failing_tool austin_state "PyException ''timeout''"]
    by blast
qed

text \<open>
  Claim C5: given zero raw results the search step returns exactly the apology message;
  given \<open>N \<ge> 1\<close> raw results (so in particular for \<open>1 \<le> N \<le> 5\<close>) it returns a
  single assistant message that lists, after the header, exactly \<open>N\<close> entries separated
  by blank lines, the entry of the result at index \<open>i\<close> carrying the number \<open>i + 1\<close>,
  its title, its URL and its snippet.
\<close>

theorem search_contracts_output:
  "(tool (search_query state) = Inr [] \<longrightarrow>
      search_contracts tool state = Inr (messages_only [AIMessage no_results_message])) \<and>
   (tool (search_query state) = Inr raw \<and> raw \<noteq> [] \<longrightarrow>
      search_contracts tool state =
        Inr (messages_only [AIMessage (results_header @
          join (nl @ nl)
            (map (\<lambda>i. numbered_entry (Suc i) (process_result (raw ! i))) [0..<length raw]))]))"
proof (intro conjI impI)
  assume "tool (search_query state) = Inr []"
  then show "search_contracts tool state = Inr (messages_only [AIMessage no_results_message])"
    by (simp add: search_contracts_def safe_search_contracts_def render_results_def)
next
  assume a: "tool (search_query state) = Inr raw \<and> raw \<noteq> []"
  then show "search_contracts tool state =
        Inr (messages_only [AIMessage (results_header @
          join (nl @ nl)
            (map (\<lambda>i. numbered_entry (Suc i) (process_result (raw ! i))) [0..<length raw]))])"
    by (simp add: search_contracts_processed)
qed

theorem search_contracts_output_witness:
  "search_contracts (\<lambda>query. Inr []) austin_state
     = Inr (messages_only [AIMessage no_results_message]) \<and>
   search_contracts (\<lambda>query. Inr two_results) austin_state
     = Inr (messages_only [AIMessage (results_header @ two_entries)])"
proof -
  have n: "two_results \<noteq> []"
    by (simp add: two_results_def)
  have e: "map (\<lambda>i. numbered_entry (Suc i) (process_result (two_results ! i))) [0..<length two_results]
             = [numbered_entry (Suc 0) (process_result (two_results ! 0)),
                numbered_entry (Suc (Suc 0)) (process_result (two_results ! Suc 0))]"
    by (simp add: upt_two)
  have j: "join (nl @ nl)
             [numbered_entry (Suc 0) (process_result (two_results ! 0)),
              numbered_entry (Suc (Suc 0)) (process_result (two_results ! Suc 0))] = two_entries"
    by (simp add: two_entries_def numbered_entry_def process_result_def result_get_def
        two_results_def str_nat_small del: str_nat.simps)
  show ?thesis
    using n e j search_contracts_output [of "\<lambda>query. Inr []" austin_state two_results]
      search_contracts_output [of "\<lambda>query. Inr two_results" austin_state two_results]
    by simp
qed

text \<open>
  Claim C6: in every entry of the message that the search step returns for \<open>N \<ge> 1\<close> raw
  results, the text after \<open>Description:\<close> is the first 200 characters of the content of
  the processed result followed by \<open>...\<close>, whatever the length of the content: an entry
  whose content has at most 200 characters shows it whole, followed by \<open>...\<close>.
\<close>

theorem rendered_snippet_truncation:
  assumes "tool (search_query state) = Inr raw" and "raw \<noteq> []"
  shows "search_contracts tool state =
           Inr (messages_only [AIMessage (results_header @
             join (nl @ nl)
               (map (\<lambda>i. entry_head (Suc i) (process_result (raw ! i)) @
                          take 200 (content (process_result (raw ! i))) @ ''...'')
                  [0..<length raw]))]) \<and>
         search_contracts tool state =
           Inr (messages_only [AIMessage (results_header @
             join (nl @ nl)
               (map (\<lambda>i. entry_head (Suc i) (process_result (raw ! i)) @
                          (if length (content (process_result (raw ! i))) \<le> 200
                           then content (process_result (raw ! i))
                           else take 200 (content (process_result (raw ! i)))) @ ''...'')
                  [0..<length raw]))])"
proof -
  have "(\<lambda>i. numbered_entry (Suc i) (process_result (raw ! i)))
          = (\<lambda>i. entry_head (Suc i) (process_result (raw ! i)) @
                  take 200 (content (process_result (raw ! i))) @ ''...'')"
    by (simp add: numbered_entry_head)
  moreover have "(\<lambda>i. entry_head (Suc i) (process_result (raw ! i)) @
                  take 200 (content (process_result (raw ! i))) @ ''...'')
          = (\<lambda>i. entry_head (Suc i) (process_result (raw ! i)) @
                  (if length (content (process_result (raw ! i))) \<le> 200
                   then content (process_result (raw ! i))
                   else take 200 (content (process_result (raw ! i)))) @ ''...'')"
    by (rule ext) simp
  ultimately show ?thesis
    using assms search_contracts_processed [of tool state raw] by simp
qed

theorem rendered_snippet_truncation_witness:
  "(\<lambda>query. Inr long_results) (search_query austin_state) = Inr long_results \<and>
   long_results \<noteq> [] \<and>
   search_contracts (\<lambda>query. Inr long_results) austin_state
     = Inr (messages_only [AIMessage (results_header @ long_entries)])"
proof -
  have n: "long_results \<noteq> []"
    by (simp add: long_results_def)
  have t: "(\<lambda>query. Inr long_results) (search_query austin_state) = Inr long_results"
    by simp
  have u: "[0..<length long_results] = [0, Suc 0]"
    by (simp add: long_results_def upt_rec)
  have c: "take 200 (replicate 250 (CHR ''a'')) = replicate 200 (CHR ''a'')"
    by simp
  have j: "join (nl @ nl)
             (map (\<lambda>i. entry_head (Suc i) (process_result (long_results ! i)) @
                        take 200 (content (process_result (long_results ! i))) @ ''...'')
                [0..<length long_results]) = long_entries"
    unfolding u
    by (simp add: long_entries_def entry_head_def process_result_def result_get_def
        long_results_def str_nat_small c del: str_nat.simps)
  show ?thesis
    using n t j
      rendered_snippet_truncation [of "\<lambda>query. Inr long_results" austin_state long_results]
    by simp
qed

text \<open>
  Claim C7: the search step processes every raw result, and for each of the keys title, url
  and content independently, the processed result holds the value of the key when the raw
  result has it and the default of that key (\<open>Untitled Contract Opportunity\<close>,
  \<open>No URL available\<close>, \<open>No description available\<close>) when it is absent.
\<close>

theorem process_result_defaults:
  assumes "tool (search_query state) = Inr raw" and "i < length raw"
  shows "\<exists>results. safe_search_contracts tool state = Inr results \<and>
           length results = length raw \<and>
           title (results ! i) =
             (case (raw ! i) ''title'' of None \<Rightarrow> ''Untitled Contract Opportunity'' | Some v \<Rightarrow> v) \<and>
           url (results ! i) =
             (case (raw ! i) ''url'' of None \<Rightarrow> ''No URL available'' | Some v \<Rightarrow> v) \<and>
           content (results ! i) =
             (case (raw ! i) ''content'' of None \<Rightarrow> ''No description available'' | Some v \<Rightarrow> v)"
  using assms by (simp add: safe_search_contracts_def process_result_def result_get_def)

theorem process_result_defaults_witness:
  "(\<lambda>query. Inr two_results) (search_query austin_state) = Inr two_results \<and>
   (1::nat) < length two_results \<and>
   (\<exists>results. safe_search_contracts (\<lambda>query. Inr two_results) austin_state = Inr results \<and>
      length results = 2 \<and>
      title (results ! 1) = ''Untitled Contract Opportunity'' \<and>
      url (results ! 1) = ''https://example.org/b'' \<and>
      content (results ! 1) = ''No description available'')"
proof -
  have l: "(1::nat) < length two_results"
    by (simp add: two_results_def)
  have n: "length two_results = 2"
    by (simp add: two_results_def)
  have r: "(two_results ! 1) ''title'' = None"
    "(two_results ! 1) ''url'' = Some ''https://example.org/b''"
    "(two_results ! 1) ''content'' = None"
    by (simp_all add: two_results_def)
  show ?thesis
    using l n r process_result_defaults [of "\<lambda>query. Inr two_results" austin_state two_results 1]
    by simp
qed

section \<open>Field extraction\<close>

text \<open>
  Claim C8, as stated: once a field has been set by a keyword match, no later extraction
  check changes it. It fails when the match sets the field to the empty string: the input
  \<open>industry\<close> sets the industry to the text after the keyword, which is empty, and the
  check of the next turn, with the input \<open>industry IT\<close>, assigns the field again.
\<close>

theorem extraction_overwrites_empty_counterexample:
  "extract_details ''industry'' first_turn = Inr after_first_turn \<and>
   is_set (industry after_first_turn) \<and>
   extract_details ''industry IT'' second_turn
     = Inr (second_turn\<lparr>industry := Some (PyStr ''IT'')\<rparr>) \<and>
   industry (second_turn\<lparr>industry := Some (PyStr ''IT'')\<rparr>) \<noteq> industry second_turn \<and>
   industry second_turn = industry after_first_turn"
proof -
  have a: "extract_details ''industry'' first_turn = Inr after_first_turn"
    by code_simp
  have b: "extract_details ''industry IT'' second_turn
            = Inr (second_turn\<lparr>industry := Some (PyStr ''IT'')\<rparr>)"
    by code_simp
  show ?thesis
    using a b by (simp add: after_first_turn_def second_turn_def is_set_def unset_def)
qed

text \<open>
  Claim C8, amended: once one of the four fields holds a non-empty string, no later
  extraction check changes it, whatever the later inputs contain: starting from a
  dictionary with the four field keys, the checks of any sequence of inputs run without an
  exception and leave every field that held a non-empty string as it was. The checks assign
  only to a field that is \<open>None\<close> or the empty string.
\<close>

theorem extraction_keeps_nonempty:
  assumes "all_keys st"
  shows "\<exists>st'. extract_all inputs st = Inr st' \<and> all_keys st' \<and>
           (\<not> blank (industry st) \<longrightarrow> industry st' = industry st) \<and>
           (\<not> blank (contract_type st) \<longrightarrow> contract_type st' = contract_type st) \<and>
           (\<not> blank (location st) \<longrightarrow> location st' = location st) \<and>
           (\<not> blank (budget_range st) \<longrightarrow> budget_range st' = budget_range st)"
  using extract_all_keeps [OF assms, of inputs] by (auto simp: keeps_def)

theorem extraction_keeps_nonempty_witness:
  "all_keys austin_turn \<and> \<not> blank (industry austin_turn) \<and>
   (\<exists>st'. extract_all later_inputs austin_turn = Inr st' \<and> industry st' = Some (PyStr ''IT''))"
proof -
  have k: "all_keys austin_turn"
    by (simp add: all_keys_def austin_turn_def initial_state_def)
  have n: "\<not> blank (industry austin_turn)"
    by (simp add: austin_turn_def blank_def unset_def)
  have i: "industry austin_turn = Some (PyStr ''IT'')"
    by (simp add: austin_turn_def)
  show ?thesis
    using k n i extraction_keeps_nonempty [OF k, of later_inputs] by auto
qed

text \<open>
  Claim C9: for an input whose lower-cased text contains \<open>in\<close> but not \<open>location\<close>,
  with the location field not yet filled (\<open>None\<close> or the empty string), the location check
  sets the location to the whole input stripped of surrounding white space, since splitting
  at the absent separator \<open>location\<close> returns the whole input; the four checks of the turn
  succeed and leave the location so.
\<close>

theorem location_whole_input:
  assumes "all_keys st" and "location st = Some v" and "\<not> truthy v"
    and "py_in ''in'' (lower user_input)" and "\<not> py_in ''location'' (lower user_input)"
  shows "check_location user_input st = Inr (st\<lparr>location := Some (PyStr (strip user_input))\<rparr>) \<and>
         (\<exists>st'. extract_details user_input st = Inr st' \<and>
                location st' = Some (PyStr (strip user_input)))"
proof -
  obtain s1 where s1: "check_industry user_input st = Inr s1" "keeps st s1"
    using check_industry_keeps [OF assms(1)] by blast
  obtain s2 where s2: "check_contract_type user_input s1 = Inr s2" "keeps s1 s2"
    using check_contract_type_keeps [OF keeps_keys [OF s1(2)]] by blast
  have l2: "location s2 = Some v"
    using check_industry_location [OF s1(1)] check_contract_type_location [OF s2(1)] assms(2)
    by simp
  have s3: "check_location user_input s2 = Inr (s2\<lparr>location := Some (PyStr (strip user_input))\<rparr>)"
    using check_location_whole [OF l2 assms(3) assms(4) assms(5)] .
  have "all_keys (s2\<lparr>location := Some (PyStr (strip user_input))\<rparr>)"
    using keeps_keys [OF s2(2)] by (simp add: all_keys_def)
  then obtain s4 where s4:
    "check_budget_range user_input (s2\<lparr>location := Some (PyStr (strip user_input))\<rparr>) = Inr s4"
    using check_budget_range_keeps by blast
  have "extract_details user_input st = Inr s4"
    by (simp add: extract_details_def and_then_def s1 s2 s3 s4)
  moreover have "location s4 = Some (PyStr (strip user_input))"
    using check_budget_range_location [OF s4] by simp
  ultimately show ?thesis
    using check_location_whole [OF assms(2) assms(3) assms(4) assms(5)] by blast
qed

theorem location_whole_input_witness:
  "all_keys austin_turn \<and> location austin_turn = Some PyNone \<and> \<not> truthy PyNone \<and>
   py_in ''in'' (lower ''  Full-time work in Austin '') \<and>
   \<not> py_in ''location'' (lower ''  Full-time work in Austin '') \<and>
   check_location ''  Full-time work in Austin '' austin_turn
     = Inr (austin_turn\<lparr>location := Some (PyStr ''Full-time work in Austin'')\<rparr>)"
proof -
  have k: "all_keys austin_turn"
    by (simp add: all_keys_def austin_turn_def initial_state_def)
  have l: "location austin_turn = Some PyNone"
    by (simp add: austin_turn_def initial_state_def)
  have t: "\<not> truthy PyNone"
    by simp
  show ?thesis
    using k l t austin_facts
      location_whole_input [OF k l t austin_facts(1) austin_facts(2)]
    by simp
qed

end
